theory Spec2Isabelle
  imports Complex_Main "HOL-Library.Multiset"
begin

section \<open>The content pipeline of build-data.cjs\<close>

text \<open>
  A shallow embedding of the script that turns the CSV tables of the portfolio into the
  JSON documents the React application imports: the line tokenizer \<open>parseCSVLine\<close>, the
  table reader \<open>parseCSV\<close>, the coercions \<open>toBoolean\<close> and \<open>toNumber\<close>, and the joins
  and the writes of \<open>buildData\<close>.

  A JavaScript string is modelled as a \<^typ>\<open>string\<close>; a \<^typ>\<open>char\<close> stands for one
  code unit below 256. A record produced by the table reader is a finite map from column
  names to field strings; reading a column the record does not have gives \<open>undefined\<close>,
  which is \<^term>\<open>None\<close> here.
  Console output is not part of the model; what the script throws is a value of type
  \<open>error\<close>.
\<close>

subsection \<open>Strings\<close>

type_synonym row = "string \<rightharpoonup> string"

abbreviation DQUOTE :: char where "DQUOTE \<equiv> CHR 0x22"
abbreviation COMMA :: char where "COMMA \<equiv> CHR 0x2C"
abbreviation LF :: char where "LF \<equiv> CHR 0x0A"
abbreviation CR :: char where "CR \<equiv> CHR 0x0D"

text \<open>The white space and line terminators that \<open>String.prototype.trim\<close> removes,
  among the code units below 256: tab, LF, VT, FF, CR, space and no-break space.\<close>

definition is_space :: "char \<Rightarrow> bool" where
  "is_space c = (c = CHR 0x09 \<or> c = CHR 0x0A \<or> c = CHR 0x0B \<or> c = CHR 0x0C
                 \<or> c = CHR 0x0D \<or> c = CHR 0x20 \<or> c = CHR 0xA0)"

definition trim :: "string \<Rightarrow> string" where
  "trim s = rev (dropWhile is_space (rev (dropWhile is_space s)))"

text \<open>\<open>String.prototype.toLowerCase\<close> on code units below 256: the letters A to Z and
  the capital letters of Latin-1 (0xC0 to 0xDE without the multiplication sign 0xD7)
  move up by 32.\<close>

definition lower_char :: "char \<Rightarrow> char" where
  "lower_char c =
     (let n = (of_char c :: nat)
      in if (65 \<le> n \<and> n \<le> 90) \<or> (192 \<le> n \<and> n \<le> 222 \<and> n \<noteq> 215)
         then char_of (n + 32) else c)"

definition toLowerCase :: "string \<Rightarrow> string" where
  "toLowerCase s = map lower_char s"

subsection \<open>CSV parsing helpers\<close>

datatype error =
    Unterminated_quote nat string
  | Write_failed string

text \<open>
  The \<open>for\<close> loop of \<open>parseCSVLine\<close>, as a recursion over the characters still to be read.
  The state is \<open>result\<close>, \<open>current\<close> and \<open>inQuotes\<close>; \<open>next\<close> is the head of the rest, and
  the empty string at the end of the line.
\<close>

fun scanLine :: "string \<Rightarrow> string list \<Rightarrow> string \<Rightarrow> bool \<Rightarrow> string list \<times> string \<times> bool" where
  "scanLine [] result current inQuotes = (result, current, inQuotes)"
| "scanLine (c # rest) result current inQuotes =
     (if c = DQUOTE then
        (case rest of
           n # rest' \<Rightarrow>
             if inQuotes \<and> n = DQUOTE
             then scanLine rest' result (current @ [DQUOTE]) inQuotes
             else scanLine rest result current (\<not> inQuotes)
         | [] \<Rightarrow> scanLine rest result current (\<not> inQuotes))
      else if c = COMMA \<and> \<not> inQuotes
      then scanLine rest (result @ [trim current]) [] inQuotes
      else scanLine rest result (current @ [c]) inQuotes)"

text \<open>The thrown \<open>Error\<close> carries the line number and \<open>line.slice(0, 80)\<close>, which the
  message prints between a fixed prefix and an ellipsis.\<close>

definition parseCSVLine :: "string \<Rightarrow> nat \<Rightarrow> error + string list" where
  "parseCSVLine line lineNumber =
     (case scanLine line [] [] False of
        (result, current, inQuotes) \<Rightarrow>
          if inQuotes then Inl (Unterminated_quote lineNumber (take 80 line))
          else Inr (result @ [trim current]))"

text \<open>For stating properties: whether the scan of a line ends inside quote mode, and
  the fields it has collected when it does not.\<close>

definition unterminated :: "string \<Rightarrow> bool" where
  "unterminated line =
     (case scanLine line [] [] False of (result, current, inQuotes) \<Rightarrow> inQuotes)"

definition fields_of :: "string \<Rightarrow> string list" where
  "fields_of line =
     (case scanLine line [] [] False of (result, current, inQuotes) \<Rightarrow> result @ [trim current])"

text \<open>\<open>csvText.split(/\r?\n/)\<close>: a line ends at LF or at CR LF; a CR alone stays in
  its line. The result always has at least one element.\<close>

fun split_lines :: "string \<Rightarrow> string list" where
  "split_lines [] = [[]]"
| "split_lines (c # cs) =
     (if c = LF then [] # split_lines cs
      else if c = CR \<and> (case cs of d # _ \<Rightarrow> d = LF | [] \<Rightarrow> False)
      then [] # split_lines (tl cs)
      else (case split_lines cs of
              l # ls \<Rightarrow> (c # l) # ls
            | [] \<Rightarrow> [[c]]))"

definition lines_of :: "string \<Rightarrow> string list" where
  "lines_of csvText = filter (\<lambda>l. length l > 0) (map trim (split_lines csvText))"

text \<open>
  \<open>record[header] = value\<close> on a record that starts as \<open>{}\<close>, for a string value. The
  name \<open>__proto__\<close> is the accessor that every object inherits, and its setter ignores a
  value that is not an object: the assignment creates no key. Every other name becomes
  a key of the record. No column that the script reads by name is an inherited property
  of an object.
\<close>

definition assign :: "row \<Rightarrow> string \<Rightarrow> string \<Rightarrow> row" where
  "assign record header v = (if header = ''__proto__'' then record else record(header \<mapsto> v))"

text \<open>\<open>headers.forEach((header, index) => record[header] = fields[index] ?? "")\<close>.\<close>

definition field_at :: "string list \<Rightarrow> nat \<Rightarrow> string" where
  "field_at fields index = (if index < length fields then fields ! index else [])"

definition mk_record :: "string list \<Rightarrow> string list \<Rightarrow> row" where
  "mk_record headers fields =
     foldl (\<lambda>record (header, index). assign record header (field_at fields index))
       Map.empty (zip headers [0..<length headers])"

text \<open>The loop over the data lines, \<open>lineNumber\<close> being the number of the first line of
  \<open>ls\<close>: a line that throws is caught and skipped.\<close>

fun records_from :: "string list \<Rightarrow> nat \<Rightarrow> string list \<Rightarrow> row list" where
  "records_from headers lineNumber [] = []"
| "records_from headers lineNumber (line # ls) =
     (case parseCSVLine line lineNumber of
        Inl err \<Rightarrow> records_from headers (lineNumber + 1) ls
      | Inr fields \<Rightarrow> mk_record headers fields # records_from headers (lineNumber + 1) ls)"

definition parseCSV :: "string \<Rightarrow> error + row list" where
  "parseCSV csvText =
     (case lines_of csvText of
        [] \<Rightarrow> Inr []
      | header # ls \<Rightarrow>
          (case parseCSVLine header 1 of
             Inl err \<Rightarrow> Inl err
           | Inr headers \<Rightarrow> Inr (records_from headers 2 ls)))"

text \<open>The files of the data directory, by name.\<close>

type_synonym files = "string \<rightharpoonup> string"

definition readCSV :: "files \<Rightarrow> string \<Rightarrow> error + row list" where
  "readCSV fs filename =
     (case fs filename of
        None \<Rightarrow> Inr []
      | Some csvText \<Rightarrow> parseCSV csvText)"

subsection \<open>Simple helpers\<close>

datatype js_number = Finite real | NaN | PosInfinity | NegInfinity

datatype js_value =
    JUndefined
  | JNull
  | JBoolean bool
  | JNumber js_number
  | JString string
  | JObject

definition field :: "string option \<Rightarrow> js_value" where
  "field v = (case v of None \<Rightarrow> JUndefined | Some s \<Rightarrow> JString s)"

fun toBoolean :: "js_value \<Rightarrow> bool" where
  "toBoolean (JBoolean b) = b"
| "toBoolean (JString s) =
     (let v = toLowerCase (trim s) in v = ''true'' \<or> v = ''1'' \<or> v = ''yes'')"
| "toBoolean _ = False"

text \<open>
  \<open>toNumber\<close> is called on fields of records only, so its argument is a string or
  \<open>undefined\<close>. The conversion \<open>Number(value)\<close> of the language is the parameter
  \<open>Number\<close>; a finite double is the real number it denotes.
\<close>

definition toNumber :: "(string \<Rightarrow> js_number) \<Rightarrow> string option \<Rightarrow> real \<Rightarrow> real" where
  "toNumber Number value fallback =
     (case value of
        None \<Rightarrow> fallback
      | Some s \<Rightarrow>
          if s = [] then fallback
          else (case Number s of Finite n \<Rightarrow> n | _ \<Rightarrow> fallback))"

text \<open>\<open>a ?? b\<close>, \<open>a || b\<close>, \<open>a || ""\<close> and \<open>a || null\<close> on fields: only \<open>undefined\<close> is
  nullish, and \<open>undefined\<close> and the empty string are falsy. In \<open>or_null\<close> the result
  \<^term>\<open>None\<close> is \<open>null\<close>.\<close>

definition nullish :: "string option \<Rightarrow> string option \<Rightarrow> string option" where
  "nullish a b = (case a of None \<Rightarrow> b | Some _ \<Rightarrow> a)"

definition truthy :: "string option \<Rightarrow> bool" where
  "truthy a = (case a of None \<Rightarrow> False | Some s \<Rightarrow> s \<noteq> [])"

definition or_js :: "string option \<Rightarrow> string option \<Rightarrow> string option" where
  "or_js a b = (if truthy a then a else b)"

definition or_str :: "string option \<Rightarrow> string \<Rightarrow> string" where
  "or_str a d = (case a of None \<Rightarrow> d | Some s \<Rightarrow> if s = [] then d else s)"

definition or_null :: "string option \<Rightarrow> string option" where
  "or_null a = (if truthy a then a else None)"

text \<open>
  \<open>xs.sort((a, b) => key(a) - key(b))\<close> with finite keys: the difference of two finite
  doubles has the sign of the comparison of their values, and the sort of the language
  is stable, so the result is the stable sort by the key.
\<close>

definition sort_by :: "('a \<Rightarrow> real) \<Rightarrow> 'a list \<Rightarrow> 'a list" where
  "sort_by key xs = sort_key key xs"

subsection \<open>Output shapes\<close>

text \<open>A field that the script copies from a record without a default is a
  \<^typ>\<open>string option\<close>: the column may be missing. The section title is a string or
  \<open>null\<close>.\<close>

record page_section =
  s_image :: "string option"
  s_text :: "string option"
  s_sectionTitle :: "string option"

text \<open>A grouped case study section still has its sort key; \<open>({ order, ...rest }) => rest\<close>
  is \<open>page_section.truncate\<close>.\<close>

record entry = page_section +
  order :: real

record detail =
  d_heading :: "string option"
  d_text :: "string option"
  d_image :: string
  d_caseStudyLink :: string
  d_password :: string

record project =
  p_id :: string
  p_title :: "string option"
  p_subtitle :: "string option"
  p_description :: "string option"
  p_reversed :: bool
  p_hasDetailPage :: bool
  p_details :: "detail list"
  p_image :: string
  p_images :: "string list"
  p_caseStudy :: "page_section list"
  p_displayOrder :: real
  p_password :: string

record case_study =
  c_id :: string
  c_caseStudy :: "page_section list"

record focus_area =
  f_id :: "string option"
  f_title :: "string option"
  f_subtitle :: "string option"
  f_description :: "string option"
  f_sections :: "page_section list"
  f_displayOrder :: real
  f_password :: string

record experience =
  x_company :: "string option"
  x_location :: "string option"
  x_startDate :: "string option"
  x_endDate :: "string option"
  x_role :: "string option"
  x_description :: "string option"

record education =
  e_school :: "string option"
  e_location :: "string option"
  e_startDate :: "string option"
  e_endDate :: "string option"
  e_degree :: "string option"
  e_details :: "string option"

record skill =
  k_category :: "string option"
  k_items :: "string option"

record resume =
  r_header :: row
  r_experience :: "experience list"
  r_education :: "education list"
  r_skills :: "skill list"

subsection \<open>Grouping the case study sections\<close>

text \<open>The \<open>Map\<close> built by \<open>reduce\<close> keeps its keys in insertion order: an association
  list with one pair for each key.\<close>

type_synonym groups = "(string \<times> entry list) list"

definition cs_key :: "row \<Rightarrow> string" where
  "cs_key cs = trim (or_str (or_js (cs ''project_id'') (cs ''projectId'')) [])"

definition cs_entry :: "(string \<Rightarrow> js_number) \<Rightarrow> row \<Rightarrow> entry" where
  "cs_entry Number cs =
     \<lparr> s_image = cs ''image_url'',
       s_text = cs ''text'',
       s_sectionTitle = or_null (or_js (cs ''section_title'') (cs ''sectionTitle'')),
       order = toNumber Number (nullish (cs ''section_order'') (cs ''sectionOrder'')) 0 \<rparr>"

text \<open>\<open>entry = acc.get(id) || []; entry.push(e); acc.set(id, entry)\<close>.\<close>

fun group_push :: "string \<Rightarrow> entry \<Rightarrow> groups \<Rightarrow> groups" where
  "group_push k e [] = [(k, [e])]"
| "group_push k e ((k', es) # acc) =
     (if k' = k then (k', es @ [e]) # acc else (k', es) # group_push k e acc)"

definition group_step :: "(string \<Rightarrow> js_number) \<Rightarrow> groups \<Rightarrow> row \<Rightarrow> groups" where
  "group_step Number acc cs =
     (let id' = cs_key cs
      in if id' = [] then acc else group_push id' (cs_entry Number cs) acc)"

definition caseStudyById :: "(string \<Rightarrow> js_number) \<Rightarrow> row list \<Rightarrow> groups" where
  "caseStudyById Number caseStudySections = foldl (group_step Number) [] caseStudySections"

definition group_get :: "groups \<Rightarrow> string \<Rightarrow> entry list" where
  "group_get acc id' = (case map_of acc id' of None \<Rightarrow> [] | Some es \<Rightarrow> es)"

definition sorted_sections :: "entry list \<Rightarrow> page_section list" where
  "sorted_sections sections = map page_section.truncate (sort_by order sections)"

subsection \<open>Projects\<close>

definition to_detail :: "row \<Rightarrow> detail" where
  "to_detail d =
     \<lparr> d_heading = d ''heading'',
       d_text = d ''text'',
       d_image = or_str (or_js (d ''image'') (d ''image_url'')) [],
       d_caseStudyLink = or_str (or_js (d ''case_study_link'') (d ''caseStudyLink'')) [],
       d_password = or_str (d ''password'') [] \<rparr>"

definition project_details :: "(string \<Rightarrow> js_number) \<Rightarrow> row list \<Rightarrow> string \<Rightarrow> detail list" where
  "project_details Number projectDetails id' =
     map to_detail
       (sort_by (\<lambda>d. toNumber Number (nullish (d ''detail_order'') (d ''detailOrder'')) 0)
          (filter (\<lambda>d. d ''project_id'' = Some id') projectDetails))"

definition project_key :: "row \<Rightarrow> string" where
  "project_key project = trim (or_str (project ''id'') [])"

definition to_project :: "(string \<Rightarrow> js_number) \<Rightarrow> row list \<Rightarrow> groups \<Rightarrow> row \<Rightarrow> project" where
  "to_project Number projectDetails byId project =
     (let id' = project_key project;
          primaryImage = or_str (or_js (project ''image'') (project ''image_url'')) []
      in \<lparr> p_id = id',
           p_title = project ''title'',
           p_subtitle = project ''subtitle'',
           p_description = project ''description'',
           p_reversed = toBoolean (field (project ''reversed'')),
           p_hasDetailPage = toBoolean (field (project ''hasDetailPage'')),
           p_details = project_details Number projectDetails id',
           p_image = primaryImage,
           p_images = (if primaryImage \<noteq> [] then [primaryImage] else []),
           p_caseStudy = sorted_sections (group_get byId id'),
           p_displayOrder =
             toNumber Number (nullish (project ''display_order'') (project ''displayOrder'')) 0,
           p_password = or_str (project ''password'') [] \<rparr>)"

definition projectsData ::
  "(string \<Rightarrow> js_number) \<Rightarrow> row list \<Rightarrow> row list \<Rightarrow> row list \<Rightarrow> project list" where
  "projectsData Number projects projectDetails caseStudySections =
     sort_by p_displayOrder
       (map (to_project Number projectDetails (caseStudyById Number caseStudySections)) projects)"

text \<open>The standalone case studies: the groups whose key is the id of no project.\<close>

definition caseStudyOnly ::
  "(string \<Rightarrow> js_number) \<Rightarrow> row list \<Rightarrow> row list \<Rightarrow> row list \<Rightarrow> case_study list" where
  "caseStudyOnly Number projects projectDetails caseStudySections =
     map (\<lambda>(id', sections). \<lparr> c_id = id', c_caseStudy = sorted_sections sections \<rparr>)
       (filter
          (\<lambda>(id', sections).
             find (\<lambda>p. p_id p = id')
               (projectsData Number projects projectDetails caseStudySections) = None)
          (caseStudyById Number caseStudySections))"

subsection \<open>Focus areas\<close>

definition to_section :: "row \<Rightarrow> page_section" where
  "to_section s =
     \<lparr> s_image = s ''image_url'',
       s_text = s ''text'',
       s_sectionTitle = or_null (or_js (s ''section_title'') (s ''sectionTitle'')) \<rparr>"

text \<open>\<open>s.focus_area_id === id\<close> compares two fields, either of which may be
  \<open>undefined\<close>.\<close>

definition focus_sections :: "(string \<Rightarrow> js_number) \<Rightarrow> row list \<Rightarrow> string option \<Rightarrow> page_section list" where
  "focus_sections Number focusAreaSections id' =
     map to_section
       (sort_by (\<lambda>s. toNumber Number (nullish (s ''section_order'') (s ''sectionOrder'')) 0)
          (filter (\<lambda>s. s ''focus_area_id'' = id') focusAreaSections))"

definition to_focus_area :: "(string \<Rightarrow> js_number) \<Rightarrow> row list \<Rightarrow> row \<Rightarrow> focus_area" where
  "to_focus_area Number focusAreaSections fa =
     \<lparr> f_id = fa ''id'',
       f_title = fa ''title'',
       f_subtitle = fa ''subtitle'',
       f_description = fa ''description'',
       f_sections = focus_sections Number focusAreaSections (fa ''id''),
       f_displayOrder = toNumber Number (nullish (fa ''display_order'') (fa ''displayOrder'')) 0,
       f_password = or_str (fa ''password'') [] \<rparr>"

definition focusAreasData :: "(string \<Rightarrow> js_number) \<Rightarrow> row list \<Rightarrow> row list \<Rightarrow> focus_area list" where
  "focusAreasData Number focusAreas focusAreaSections =
     sort_by f_displayOrder (map (to_focus_area Number focusAreaSections) focusAreas)"

subsection \<open>Resume\<close>

definition display_order :: "(string \<Rightarrow> js_number) \<Rightarrow> row \<Rightarrow> real" where
  "display_order Number a = toNumber Number (nullish (a ''display_order'') (a ''displayOrder'')) 0"

definition to_experience :: "row \<Rightarrow> experience" where
  "to_experience ex =
     \<lparr> x_company = ex ''company'',
       x_location = ex ''location'',
       x_startDate = ex ''start_date'',
       x_endDate = ex ''end_date'',
       x_role = ex ''role'',
       x_description = ex ''description'' \<rparr>"

definition to_education :: "row \<Rightarrow> education" where
  "to_education edu =
     \<lparr> e_school = edu ''school'',
       e_location = edu ''location'',
       e_startDate = edu ''start_date'',
       e_endDate = edu ''end_date'',
       e_degree = edu ''degree'',
       e_details = edu ''details'' \<rparr>"

definition to_skill :: "row \<Rightarrow> skill" where
  "to_skill skill = \<lparr> k_category = skill ''category'', k_items = skill ''items'' \<rparr>"

definition resumeData ::
  "(string \<Rightarrow> js_number) \<Rightarrow> row list \<Rightarrow> row list \<Rightarrow> row list \<Rightarrow> row list \<Rightarrow> resume" where
  "resumeData Number resumeHeader resumeExperience resumeEducation resumeSkills =
     \<lparr> r_header = (case resumeHeader of [] \<Rightarrow> Map.empty | first # _ \<Rightarrow> first),
       r_experience = map to_experience (sort_by (display_order Number) resumeExperience),
       r_education = map to_education (sort_by (display_order Number) resumeEducation),
       r_skills = map to_skill (sort_by (display_order Number) resumeSkills) \<rparr>"

subsection \<open>Main build function\<close>

text \<open>
  The output directory is the data directory the tables are read from; its creation when
  it is missing is not part of the model.
\<close>

text \<open>
  What the script takes from its platform: the conversion \<open>Number\<close>, \<open>JSON.stringify\<close>
  at the four document types, and the behaviour of \<open>fs.writeFileSync\<close> on a path it
  cannot write: it throws, and \<open>leftover\<close> says what the failed call leaves at that
  path (the old content when the file could not be opened).
\<close>

record runtime =
  Number_of :: "string \<Rightarrow> js_number"
  stringify_projects :: "project list \<Rightarrow> string"
  stringify_focus_areas :: "focus_area list \<Rightarrow> string"
  stringify_resume :: "resume \<Rightarrow> string"
  stringify_case_studies :: "case_study list \<Rightarrow> string"
  unwritable :: "string \<Rightarrow> bool"
  leftover :: "string \<Rightarrow> string option \<Rightarrow> string option"

definition writeFileSync :: "runtime \<Rightarrow> string \<Rightarrow> string \<Rightarrow> files \<Rightarrow> (error + unit) \<times> files" where
  "writeFileSync rt path data fs =
     (if unwritable rt path
      then (Inl (Write_failed path), fs(path := leftover rt path (fs path)))
      else (Inr (), fs(path \<mapsto> data)))"

text \<open>The calls of \<open>fs.writeFileSync\<close> one after the other; the first that throws ends
  the sequence.\<close>

fun write_all :: "runtime \<Rightarrow> (string \<times> string) list \<Rightarrow> files \<Rightarrow> (error + unit) \<times> files" where
  "write_all rt [] fs = (Inr (), fs)"
| "write_all rt ((path, data) # rest) fs =
     (case writeFileSync rt path data fs of
        (Inl err, fs') \<Rightarrow> (Inl err, fs')
      | (Inr _, fs') \<Rightarrow> write_all rt rest fs')"

definition writeOutputs ::
  "runtime \<Rightarrow> project list \<Rightarrow> focus_area list \<Rightarrow> resume \<Rightarrow> case_study list \<Rightarrow> files
     \<Rightarrow> (error + unit) \<times> files" where
  "writeOutputs rt projectsData' focusAreasData' resumeData' caseStudyOnly' fs =
     write_all rt
       [(''projects.json'', stringify_projects rt projectsData'),
        (''focus-areas.json'', stringify_focus_areas rt focusAreasData'),
        (''resume.json'', stringify_resume rt resumeData'),
        (''case-studies.json'', stringify_case_studies rt caseStudyOnly')]
       fs"

definition bind_result :: "error + 'a \<Rightarrow> files \<Rightarrow> ('a \<Rightarrow> (error + unit) \<times> files) \<Rightarrow> (error + unit) \<times> files" where
  "bind_result r fs k = (case r of Inl err \<Rightarrow> (Inl err, fs) | Inr v \<Rightarrow> k v)"

definition buildData :: "runtime \<Rightarrow> files \<Rightarrow> (error + unit) \<times> files" where
  "buildData rt fs =
     bind_result (readCSV fs ''projects.csv'') fs (\<lambda>projects.
     bind_result (readCSV fs ''project_details.csv'') fs (\<lambda>projectDetails.
     bind_result (readCSV fs ''case_study_sections.csv'') fs (\<lambda>caseStudySections.
     bind_result (readCSV fs ''focus_areas.csv'') fs (\<lambda>focusAreas.
     bind_result (readCSV fs ''focus_area_sections.csv'') fs (\<lambda>focusAreaSections.
     bind_result (readCSV fs ''resume_header.csv'') fs (\<lambda>resumeHeader.
     bind_result (readCSV fs ''resume_experience.csv'') fs (\<lambda>resumeExperience.
     bind_result (readCSV fs ''resume_education.csv'') fs (\<lambda>resumeEducation.
     bind_result (readCSV fs ''resume_skills.csv'') fs (\<lambda>resumeSkills.
       writeOutputs rt
         (projectsData (Number_of rt) projects projectDetails caseStudySections)
         (focusAreasData (Number_of rt) focusAreas focusAreaSections)
         (resumeData (Number_of rt) resumeHeader resumeExperience resumeEducation resumeSkills)
         (caseStudyOnly (Number_of rt) projects projectDetails caseStudySections)
         fs)))))))))"

text \<open>The \<open>try\<close> around \<open>buildData()\<close>: the exit code, the error whose message is
  logged, and the files the run leaves.\<close>

definition main :: "runtime \<Rightarrow> files \<Rightarrow> nat \<times> error option \<times> files" where
  "main rt fs =
     (case buildData rt fs of
        (Inl err, fs') \<Rightarrow> (1, Some err, fs')
      | (Inr _, fs') \<Rightarrow> (0, None, fs'))"

section \<open>Properties\<close>

subsection \<open>The tokenizer\<close>

text \<open>
  C7. Inside quote mode a comma is appended to the current field, and a double quote
  followed at once by a second double quote appends one double quote and consumes both.
  The line \<open>a,"b,c",d\<close> gives the three fields \<open>a\<close>, \<open>b,c\<close> and \<open>d\<close>, and the line
  \<open>a,"b""c",d\<close> gives \<open>a\<close>, \<open>b"c\<close> and \<open>d\<close>, whatever the line number.
\<close>

theorem parseCSVLine_quoting:
  "scanLine (COMMA # rest) result current True = scanLine rest result (current @ [COMMA]) True
   \<and> scanLine (DQUOTE # DQUOTE # rest) result current True
       = scanLine rest result (current @ [DQUOTE]) True
   \<and> parseCSVLine (''a,'' @ [DQUOTE] @ ''b,c'' @ [DQUOTE] @ '',d'') n = Inr [''a'', ''b,c'', ''d'']
   \<and> parseCSVLine (''a,'' @ [DQUOTE] @ ''b'' @ [DQUOTE, DQUOTE] @ ''c'' @ [DQUOTE] @ '',d'') n
       = Inr [''a'', ''b'' @ [DQUOTE] @ ''c'', ''d'']"
  by (simp add: parseCSVLine_def trim_def is_space_def)

subsection \<open>Coercions\<close>

text \<open>
  C9, as stated, fails: the claim sends every input that is not a string to false, and
  \<open>toBoolean\<close> returns a boolean input as it is, so \<open>true\<close> gives true.
\<close>

theorem toBoolean_boolean_counterexample:
  "\<not> (toBoolean (JBoolean True) = False)"
  by simp

text \<open>
  C9, amended. \<open>toBoolean\<close> is total. A boolean is returned unchanged; a string is true
  exactly when its trimmed lower-case form is \<open>true\<close>, \<open>1\<close> or \<open>yes\<close>; \<open>undefined\<close>,
  \<open>null\<close>, numbers and objects are false. So \<open>TRUE\<close>, \<open>true\<close>, \<open>1\<close> and \<open>yes\<close> are true,
  and the empty string, \<open>false\<close>, \<open>no\<close>, \<open>2\<close> and a missing field are false.
\<close>

theorem toBoolean_cases:
  "toBoolean v =
     (case v of
        JBoolean b \<Rightarrow> b
      | JString s \<Rightarrow> toLowerCase (trim s) = ''true'' \<or> toLowerCase (trim s) = ''1''
                      \<or> toLowerCase (trim s) = ''yes''
      | JUndefined \<Rightarrow> False
      | JNull \<Rightarrow> False
      | JNumber n \<Rightarrow> False
      | JObject \<Rightarrow> False)
   \<and> toBoolean (JString ''TRUE'') \<and> toBoolean (JString ''true'')
   \<and> toBoolean (JString ''1'') \<and> toBoolean (JString ''yes'')
   \<and> \<not> toBoolean (JString []) \<and> \<not> toBoolean (JString ''false'')
   \<and> \<not> toBoolean (JString ''no'') \<and> \<not> toBoolean (JString ''2'')
   \<and> \<not> toBoolean (field None)"
proof -
  have general: "toBoolean v =
     (case v of
        JBoolean b \<Rightarrow> b
      | JString s \<Rightarrow> toLowerCase (trim s) = ''true'' \<or> toLowerCase (trim s) = ''1''
                      \<or> toLowerCase (trim s) = ''yes''
      | JUndefined \<Rightarrow> False
      | JNull \<Rightarrow> False
      | JNumber n \<Rightarrow> False
      | JObject \<Rightarrow> False)"
    by (cases v) (simp_all add: Let_def)
  have examples: "toBoolean (JString ''TRUE'') \<and> toBoolean (JString ''true'')
   \<and> toBoolean (JString ''1'') \<and> toBoolean (JString ''yes'')
   \<and> \<not> toBoolean (JString []) \<and> \<not> toBoolean (JString ''false'')
   \<and> \<not> toBoolean (JString ''no'') \<and> \<not> toBoolean (JString ''2'')"
    by code_simp
  have missing: "\<not> toBoolean (field None)"
    by (simp add: field_def)
  from general examples missing show ?thesis by blast
qed

subsection \<open>The table reader\<close>

lemma parseCSVLine_eq:
  "parseCSVLine line n =
     (if unterminated line then Inl (Unterminated_quote n (take 80 line)) else Inr (fields_of line))"
  by (simp add: parseCSVLine_def unterminated_def fields_of_def split: prod.splits)




lemma records_from_eq:
  "records_from headers n ls = map (\<lambda>l. mk_record headers (fields_of l)) (filter (\<lambda>l. \<not> unterminated l) ls)"
  by (induction ls arbitrary: n) (simp_all add: parseCSVLine_eq)







subsection \<open>Case study groups\<close>

lemma group_step_empty_key: "cs_key cs = [] \<Longrightarrow> group_step N acc cs = acc"
  by (simp add: group_step_def)

lemma foldl_group_step_filter:
  "foldl (group_step N) acc rows = foldl (group_step N) acc (filter (\<lambda>cs. cs_key cs \<noteq> []) rows)"
  by (induction rows arbitrary: acc) (simp_all add: group_step_empty_key)

lemma caseStudyById_filter:
  "caseStudyById N rows = caseStudyById N (filter (\<lambda>cs. cs_key cs \<noteq> []) rows)"
  unfolding caseStudyById_def by (rule foldl_group_step_filter)

lemma map_fst_group_push:
  "map fst (group_push k e acc) =
     (if k \<in> fst ` set acc then map fst acc else map fst acc @ [k])"
proof (induction acc)
  case Nil
  show ?case by simp
next
  case (Cons p acc)
  obtain k' es where p: "p = (k', es)" by (cases p)
  show ?case
  proof (cases "k' = k")
    case True
    with p show ?thesis by simp
  next
    case False
    then have "(k \<in> fst ` set (p # acc)) = (k \<in> fst ` set acc)"
      using p by auto
    with False p Cons.IH show ?thesis by simp
  qed
qed

lemma keys_group_push:
  "set (map fst (group_push k e acc)) = insert k (set (map fst acc))"
  by (auto simp: map_fst_group_push image_iff)

lemma distinct_group_push:
  "distinct (map fst acc) \<Longrightarrow> distinct (map fst (group_push k e acc))"
proof (induction acc)
  case Nil
  show ?case by simp
next
  case (Cons p acc)
  obtain k' es where p: "p = (k', es)" by (cases p)
  show ?case
  proof (cases "k' = k")
    case True
    with Cons.prems p show ?thesis by simp
  next
    case False
    from Cons.prems p have "k' \<notin> set (map fst acc)" and "distinct (map fst acc)" by simp_all
    with False Cons.IH p keys_group_push [of k e acc] show ?thesis by simp
  qed
qed

lemma distinct_foldl_group_step:
  "distinct (map fst acc) \<Longrightarrow> distinct (map fst (foldl (group_step N) acc rows))"
  by (induction rows arbitrary: acc) (simp_all add: group_step_def Let_def distinct_group_push)

lemma nonempty_keys_group_step:
  "[] \<notin> set (map fst acc) \<Longrightarrow> [] \<notin> set (map fst (foldl (group_step N) acc rows))"
  by (induction rows arbitrary: acc) (simp_all add: group_step_def Let_def keys_group_push del: set_map)

lemma distinct_caseStudyById: "distinct (map fst (caseStudyById N rows))"
  unfolding caseStudyById_def by (rule distinct_foldl_group_step) simp

lemma caseStudyById_no_empty_key: "[] \<notin> set (map fst (caseStudyById N rows))"
  unfolding caseStudyById_def by (rule nonempty_keys_group_step) simp

lemma group_get_member:
  "distinct (map fst acc) \<Longrightarrow> (k, es) \<in> set acc \<Longrightarrow> group_get acc k = es"
  by (simp add: group_get_def)

lemma filter_key_distinct:
  "distinct (map fst acc) \<Longrightarrow> (k, es) \<in> set acc \<Longrightarrow> filter (\<lambda>p. fst p = k) acc = [(k, es)]"
proof (induction acc)
  case Nil
  then show ?case by simp
next
  case (Cons p acc)
  show ?case
  proof (cases "p = (k, es)")
    case True
    with Cons.prems have "k \<notin> fst ` set acc" by simp
    then have "filter (\<lambda>p. fst p = k) acc = []"
      by (auto simp: filter_empty_conv)
    with True show ?thesis by simp
  next
    case False
    with Cons.prems have mem: "(k, es) \<in> set acc" and "distinct (map fst acc)" by simp_all
    with Cons.IH have "filter (\<lambda>p. fst p = k) acc = [(k, es)]" by simp
    moreover have "fst p \<noteq> k"
    proof -
      from mem have "k \<in> fst ` set acc" by force
      moreover from Cons.prems have "fst p \<notin> fst ` set acc" by simp
      ultimately show ?thesis by blast
    qed
    ultimately show ?thesis by simp
  qed
qed

lemma set_projectsData:
  "set (projectsData N P D CS) = to_project N D (caseStudyById N CS) ` set P"
  by (simp add: projectsData_def sort_by_def)

lemma p_id_to_project: "p_id (to_project N D G project) = project_key project"
  by (simp add: to_project_def Let_def)

lemma p_caseStudy_to_project:
  "p_caseStudy (to_project N D G project) = sorted_sections (group_get G (project_key project))"
  by (simp add: to_project_def Let_def)

lemma find_projectsData:
  "(find (\<lambda>p. p_id p = k) (projectsData N P D CS) = None) = (k \<notin> project_key ` set P)"
  by (auto simp: find_None_iff set_projectsData p_id_to_project)

lemma caseStudyOnly_at:
  assumes "(k, es) \<in> set (caseStudyById N CS)"
  shows "filter (\<lambda>c. c_id c = k) (caseStudyOnly N P D CS) =
           (if k \<in> project_key ` set P then []
            else [\<lparr> c_id = k, c_caseStudy = sorted_sections es \<rparr>])"
proof -
  let ?G = "caseStudyById N CS"
  let ?f = "\<lambda>(id', sections). \<lparr> c_id = id', c_caseStudy = sorted_sections sections \<rparr>"
  let ?Q = "\<lambda>p. fst p \<notin> project_key ` set P"
  have only: "caseStudyOnly N P D CS = map ?f (filter ?Q ?G)"
    by (simp add: caseStudyOnly_def find_projectsData case_prod_unfold)
  have "filter (\<lambda>c. c_id c = k) (map ?f (filter ?Q ?G)) = map ?f (filter ?Q (filter (\<lambda>p. fst p = k) ?G))"
    by (simp add: filter_map comp_def case_prod_unfold conj_commute)
  also have "filter (\<lambda>p. fst p = k) ?G = [(k, es)]"
    using distinct_caseStudyById assms by (rule filter_key_distinct)
  finally show ?thesis using only by simp
qed

lemma group_get_group_push:
  "group_get (group_push k e acc) k' = (if k' = k then group_get acc k @ [e] else group_get acc k')"
  by (induction acc) (auto simp: group_get_def)

lemma group_get_foldl:
  "group_get (foldl (group_step N) acc rows) k =
     group_get acc k @ (if k = [] then [] else map (cs_entry N) (filter (\<lambda>cs. cs_key cs = k) rows))"
  by (induction rows arbitrary: acc) (auto simp: group_step_def Let_def group_get_group_push)

lemma group_get_caseStudyById:
  "group_get (caseStudyById N rows) k =
     (if k = [] then [] else map (cs_entry N) (filter (\<lambda>cs. cs_key cs = k) rows))"
  by (simp add: caseStudyById_def group_get_foldl) (simp add: group_get_def)

lemma keys_foldl_group_step:
  "set (map fst (foldl (group_step N) acc rows)) =
     set (map fst acc) \<union> (cs_key ` set rows - {[]})"
  by (induction rows arbitrary: acc)
     (auto simp: group_step_def Let_def keys_group_push simp del: set_map)

lemma keys_caseStudyById: "fst ` set (caseStudyById N rows) = cs_key ` set rows - {[]}"
  using keys_foldl_group_step [of N "[]" rows] by (simp add: caseStudyById_def)

lemma group_member:
  assumes "k \<noteq> []" and "k \<in> cs_key ` set rows"
  shows "(k, map (cs_entry N) (filter (\<lambda>cs. cs_key cs = k) rows)) \<in> set (caseStudyById N rows)"
proof -
  from assms have "k \<in> fst ` set (caseStudyById N rows)"
    by (simp add: keys_caseStudyById)
  then obtain es where mem: "(k, es) \<in> set (caseStudyById N rows)" by force
  with distinct_caseStudyById have "group_get (caseStudyById N rows) k = es"
    by (rule group_get_member)
  with assms(1) mem show ?thesis by (simp add: group_get_caseStudyById)
qed

lemma to_project_cong:
  "group_get G (project_key project) = group_get G' (project_key project)
   \<Longrightarrow> to_project N D G project = to_project N D G' project"
  by (simp add: to_project_def Let_def)

lemma projectsData_without_group:
  assumes "k \<notin> project_key ` set P"
  shows "projectsData N P D CS = projectsData N P D (filter (\<lambda>cs. cs_key cs \<noteq> k) CS)"
proof -
  have "to_project N D (caseStudyById N CS) project
          = to_project N D (caseStudyById N (filter (\<lambda>cs. cs_key cs \<noteq> k) CS)) project"
    if "project \<in> set P" for project
  proof (rule to_project_cong)
    from that assms have "project_key project \<noteq> k" by auto
    then have "filter (\<lambda>cs. cs_key cs = project_key project) (filter (\<lambda>cs. cs_key cs \<noteq> k) CS)
                 = filter (\<lambda>cs. cs_key cs = project_key project) CS"
      by (auto intro: filter_cong)
    then show "group_get (caseStudyById N CS) (project_key project)
                 = group_get (caseStudyById N (filter (\<lambda>cs. cs_key cs \<noteq> k) CS)) (project_key project)"
      by (simp add: group_get_caseStudyById)
  qed
  then show ?thesis by (simp add: projectsData_def cong: map_cong)
qed

text \<open>
  C1, as stated, fails for the group of the rows whose trimmed foreign key is empty: a
  row without \<open>project_id\<close> has the key \<open>""\<close>, which is the id of no project here, and
  the standalone collection is empty.
\<close>

theorem caseStudy_empty_key_group_counterexample:
  "cs_key [''text'' \<mapsto> ''t''] = []
   \<and> [] \<notin> project_key ` set [[''id'' \<mapsto> ''p1'']]
   \<and> caseStudyOnly (\<lambda>s. NaN) [[''id'' \<mapsto> ''p1'']] [] [[''text'' \<mapsto> ''t'']] = []"
  by (simp add: cs_key_def or_js_def or_str_def truthy_def trim_def is_space_def project_key_def
      caseStudyOnly_def caseStudyById_def group_step_def)

text \<open>
  C1, amended. Take a non-empty key \<open>k\<close> that is the trimmed foreign key of some case
  study section row; its group is the rows with that key, in table order. If \<open>k\<close> is the
  trimmed id of a project, every project with that id has the sorted group, without the
  sort keys, as its \<open>caseStudy\<close>, and no standalone case study has the id \<open>k\<close>. If \<open>k\<close>
  is the trimmed id of no project, exactly one standalone case study has the id \<open>k\<close>, it
  holds the sorted group, and the project list is the one computed without the rows of
  the group.
\<close>

theorem caseStudy_group_attached_or_orphan:
  assumes "k \<noteq> []" and "k \<in> cs_key ` set CS"
  shows "if k \<in> project_key ` set P
         then (\<exists>p \<in> set (projectsData N P D CS). p_id p = k)
            \<and> (\<forall>p \<in> set (projectsData N P D CS). p_id p = k \<longrightarrow>
                  p_caseStudy p = sorted_sections (map (cs_entry N) (filter (\<lambda>cs. cs_key cs = k) CS)))
            \<and> filter (\<lambda>c. c_id c = k) (caseStudyOnly N P D CS) = []
         else filter (\<lambda>c. c_id c = k) (caseStudyOnly N P D CS)
                = [\<lparr> c_id = k,
                     c_caseStudy = sorted_sections (map (cs_entry N) (filter (\<lambda>cs. cs_key cs = k) CS)) \<rparr>]
            \<and> projectsData N P D CS = projectsData N P D (filter (\<lambda>cs. cs_key cs \<noteq> k) CS)"
proof -
  let ?es = "map (cs_entry N) (filter (\<lambda>cs. cs_key cs = k) CS)"
  from assms have mem: "(k, ?es) \<in> set (caseStudyById N CS)" by (rule group_member)
  show ?thesis
  proof (cases "k \<in> project_key ` set P")
    case True
    then have ex: "\<exists>p \<in> set (projectsData N P D CS). p_id p = k"
      by (auto simp: set_projectsData p_id_to_project)
    have att: "\<forall>p \<in> set (projectsData N P D CS). p_id p = k \<longrightarrow> p_caseStudy p = sorted_sections ?es"
      using assms(1)
      by (auto simp: set_projectsData p_id_to_project p_caseStudy_to_project group_get_caseStudyById)
    from True ex att caseStudyOnly_at [OF mem, of P D] show ?thesis by simp
  next
    case False
    with caseStudyOnly_at [OF mem, of P D] projectsData_without_group [of k P N D CS]
    show ?thesis by simp
  qed
qed

text \<open>Two rows under either spelling of the key form the standalone group \<open>solo\<close>; the
  row with the key \<open>p1\<close> is the case study of the project \<open>p1\<close>.\<close>

theorem caseStudy_group_attached_or_orphan_witness:
  "filter (\<lambda>c. c_id c = ''solo'')
     (caseStudyOnly (\<lambda>s. if s = ''1'' then Finite 1 else if s = ''2'' then Finite 2 else NaN)
        [[''id'' \<mapsto> ''p1'']] []
        [[''project_id'' \<mapsto> ''solo'', ''text'' \<mapsto> ''B'', ''section_order'' \<mapsto> ''2''],
         [''projectId'' \<mapsto> ''solo'', ''text'' \<mapsto> ''A'', ''section_order'' \<mapsto> ''1''],
         [''project_id'' \<mapsto> ''p1'', ''text'' \<mapsto> ''C'']])
   = [\<lparr> c_id = ''solo'',
        c_caseStudy =
          [\<lparr> s_image = None, s_text = Some ''A'', s_sectionTitle = None \<rparr>,
           \<lparr> s_image = None, s_text = Some ''B'', s_sectionTitle = None \<rparr>] \<rparr>]
   \<and> filter (\<lambda>c. c_id c = ''p1'')
     (caseStudyOnly (\<lambda>s. if s = ''1'' then Finite 1 else if s = ''2'' then Finite 2 else NaN)
        [[''id'' \<mapsto> ''p1'']] []
        [[''project_id'' \<mapsto> ''solo'', ''text'' \<mapsto> ''B'', ''section_order'' \<mapsto> ''2''],
         [''projectId'' \<mapsto> ''solo'', ''text'' \<mapsto> ''A'', ''section_order'' \<mapsto> ''1''],
         [''project_id'' \<mapsto> ''p1'', ''text'' \<mapsto> ''C'']])
   = []
   \<and> list_all
       (\<lambda>p. p_caseStudy p = [\<lparr> s_image = None, s_text = Some ''C'', s_sectionTitle = None \<rparr>])
       (projectsData (\<lambda>s. if s = ''1'' then Finite 1 else if s = ''2'' then Finite 2 else NaN)
          [[''id'' \<mapsto> ''p1'']] []
          [[''project_id'' \<mapsto> ''solo'', ''text'' \<mapsto> ''B'', ''section_order'' \<mapsto> ''2''],
           [''projectId'' \<mapsto> ''solo'', ''text'' \<mapsto> ''A'', ''section_order'' \<mapsto> ''1''],
           [''project_id'' \<mapsto> ''p1'', ''text'' \<mapsto> ''C'']])"
proof -
  let ?N = "\<lambda>s. if s = ''1'' then Finite 1 else if s = ''2'' then Finite 2 else NaN"
  let ?P = "[[''id'' \<mapsto> ''p1'']] :: row list"
  let ?CS = "[[''project_id'' \<mapsto> ''solo'', ''text'' \<mapsto> ''B'', ''section_order'' \<mapsto> ''2''],
         [''projectId'' \<mapsto> ''solo'', ''text'' \<mapsto> ''A'', ''section_order'' \<mapsto> ''1''],
         [''project_id'' \<mapsto> ''p1'', ''text'' \<mapsto> ''C'']] :: row list"
  have keys: "map cs_key ?CS = [''solo'', ''solo'', ''p1'']"
    by (simp add: cs_key_def or_js_def or_str_def truthy_def trim_def is_space_def)
  have pkeys: "map project_key ?P = [''p1'']"
    by (simp add: project_key_def or_str_def trim_def is_space_def)
  have kset: "cs_key ` set ?CS = {''solo'', ''p1''}"
    using arg_cong [OF keys, of set] by simp
  have pset: "project_key ` set ?P = {''p1''}"
    using arg_cong [OF pkeys, of set] by simp
  have h1: "''solo'' \<noteq> []" by simp
  have h2: "''solo'' \<in> cs_key ` set ?CS"
    unfolding kset by simp
  have h3: "''solo'' \<notin> project_key ` set ?P"
    unfolding pset by simp
  have grp: "map (cs_entry ?N) (filter (\<lambda>cs. cs_key cs = ''solo'') ?CS)
      = [\<lparr> s_image = None, s_text = Some ''B'', s_sectionTitle = None, order = 2 \<rparr>,
         \<lparr> s_image = None, s_text = Some ''A'', s_sectionTitle = None, order = 1 \<rparr>]"
    by (simp add: cs_key_def or_js_def or_str_def truthy_def trim_def is_space_def cs_entry_def
        or_null_def nullish_def toNumber_def)
  from caseStudy_group_attached_or_orphan [OF h1 h2, of ?P ?N "[]"] h3
  have "filter (\<lambda>c. c_id c = ''solo'') (caseStudyOnly ?N ?P [] ?CS)
          = [\<lparr> c_id = ''solo'',
               c_caseStudy = sorted_sections (map (cs_entry ?N) (filter (\<lambda>cs. cs_key cs = ''solo'') ?CS)) \<rparr>]"
    by simp
  then have orphan: "filter (\<lambda>c. c_id c = ''solo'') (caseStudyOnly ?N ?P [] ?CS)
          = [\<lparr> c_id = ''solo'',
               c_caseStudy =
                 [\<lparr> s_image = None, s_text = Some ''A'', s_sectionTitle = None \<rparr>,
                  \<lparr> s_image = None, s_text = Some ''B'', s_sectionTitle = None \<rparr>] \<rparr>]"
    unfolding grp by (simp add: sorted_sections_def sort_by_def page_section.truncate_def)
  have g1: "''p1'' \<noteq> []" by simp
  have g2: "''p1'' \<in> cs_key ` set ?CS"
    unfolding kset by simp
  have g3: "''p1'' \<in> project_key ` set ?P"
    unfolding pset by simp
  have grp': "map (cs_entry ?N) (filter (\<lambda>cs. cs_key cs = ''p1'') ?CS)
      = [\<lparr> s_image = None, s_text = Some ''C'', s_sectionTitle = None, order = 0 \<rparr>]"
    by (simp add: cs_key_def or_js_def or_str_def truthy_def trim_def is_space_def cs_entry_def
        or_null_def nullish_def toNumber_def)
  note att = caseStudy_group_attached_or_orphan [OF g1 g2, of ?P ?N "[]"]
  from att g3 have none: "filter (\<lambda>c. c_id c = ''p1'') (caseStudyOnly ?N ?P [] ?CS) = []"
    by simp
  from att g3 have own: "\<forall>p \<in> set (projectsData ?N ?P [] ?CS). p_id p = ''p1'' \<longrightarrow>
      p_caseStudy p = sorted_sections (map (cs_entry ?N) (filter (\<lambda>cs. cs_key cs = ''p1'') ?CS))"
    by simp
  have ids: "\<forall>p \<in> set (projectsData ?N ?P [] ?CS). p_id p = ''p1''"
    using pkeys by (simp add: set_projectsData p_id_to_project)
  from own ids have "list_all
       (\<lambda>p. p_caseStudy p = sorted_sections (map (cs_entry ?N) (filter (\<lambda>cs. cs_key cs = ''p1'') ?CS)))
       (projectsData ?N ?P [] ?CS)"
    unfolding list_all_iff by blast
  then have attached: "list_all
       (\<lambda>p. p_caseStudy p = [\<lparr> s_image = None, s_text = Some ''C'', s_sectionTitle = None \<rparr>])
       (projectsData ?N ?P [] ?CS)"
    unfolding grp' by (simp add: sorted_sections_def sort_by_def page_section.truncate_def)
  from orphan none attached show ?thesis by (intro conjI)
qed

text \<open>
  C10. The case study section rows whose trimmed foreign key is empty contribute to
  nothing: the groups, the project list and the standalone case studies are those
  computed from the table without these rows, and the empty key is the key of no group
  and the id of no standalone case study.
\<close>

theorem caseStudy_empty_key_discarded:
  "caseStudyById N CS = caseStudyById N (filter (\<lambda>cs. cs_key cs \<noteq> []) CS)
   \<and> projectsData N P D CS = projectsData N P D (filter (\<lambda>cs. cs_key cs \<noteq> []) CS)
   \<and> caseStudyOnly N P D CS = caseStudyOnly N P D (filter (\<lambda>cs. cs_key cs \<noteq> []) CS)
   \<and> [] \<notin> c_id ` set (caseStudyOnly N P D CS)
   \<and> [] \<notin> fst ` set (caseStudyById N CS)"
proof -
  let ?CS = "filter (\<lambda>cs. cs_key cs \<noteq> []) CS"
  have g: "caseStudyById N CS = caseStudyById N ?CS" by (rule caseStudyById_filter)
  have p: "projectsData N P D CS = projectsData N P D ?CS"
    by (simp add: projectsData_def g [symmetric])
  have c: "caseStudyOnly N P D CS = caseStudyOnly N P D ?CS"
    by (simp add: caseStudyOnly_def g [symmetric] p [symmetric])
  have k: "[] \<notin> fst ` set (caseStudyById N CS)"
    using caseStudyById_no_empty_key [of N CS] by simp
  then have o: "[] \<notin> c_id ` set (caseStudyOnly N P D CS)"
    by (force simp: caseStudyOnly_def)
  from g p c o k show ?thesis by blast
qed

subsection \<open>Order of the projects\<close>

text \<open>
  C3. The project list is sorted ascending by \<open>displayOrder\<close>; it is a permutation of
  the projects built from the rows, and the projects of one \<open>displayOrder\<close> keep their
  table order. The \<open>displayOrder\<close> of a project is 0 when the column is missing, empty or
  not converted to a finite number. When \<open>Number\<close> converts \<open>"2"\<close> to 2 and \<open>"1"\<close> to 1,
  the rows a, b, c with \<open>displayOrder\<close> \<open>"2"\<close>, \<open>"1"\<close>, \<open>""\<close> come out as c, b, a.
\<close>

theorem projectsData_sorted_stable:
  "sorted (map p_displayOrder (projectsData N P D CS))
   \<and> mset (projectsData N P D CS) = mset (map (to_project N D (caseStudyById N CS)) P)
   \<and> filter (\<lambda>p. p_displayOrder p = v) (projectsData N P D CS)
       = filter (\<lambda>p. p_displayOrder p = v) (map (to_project N D (caseStudyById N CS)) P)
   \<and> p_displayOrder (to_project N D G project)
       = (case nullish (project ''display_order'') (project ''displayOrder'') of
            None \<Rightarrow> 0
          | Some s \<Rightarrow>
              if s = [] then 0
              else (case N s of Finite n \<Rightarrow> n | NaN \<Rightarrow> 0 | PosInfinity \<Rightarrow> 0 | NegInfinity \<Rightarrow> 0))
   \<and> (N ''2'' = Finite 2 \<longrightarrow> N ''1'' = Finite 1 \<longrightarrow>
        map p_id
          (projectsData N
             [[''id'' \<mapsto> ''a'', ''displayOrder'' \<mapsto> ''2''],
              [''id'' \<mapsto> ''b'', ''displayOrder'' \<mapsto> ''1''],
              [''id'' \<mapsto> ''c'', ''displayOrder'' \<mapsto> '''']] D CS)
        = [''c'', ''b'', ''a''])"
proof -
  have s: "sorted (map p_displayOrder (projectsData N P D CS))"
    by (simp add: projectsData_def sort_by_def)
  have m: "mset (projectsData N P D CS) = mset (map (to_project N D (caseStudyById N CS)) P)"
    by (simp add: projectsData_def sort_by_def)
  have st: "filter (\<lambda>p. p_displayOrder p = v) (projectsData N P D CS)
       = filter (\<lambda>p. p_displayOrder p = v) (map (to_project N D (caseStudyById N CS)) P)"
    unfolding projectsData_def sort_by_def by (rule sort_key_stable)
  have fb: "p_displayOrder (to_project N D G project)
       = (case nullish (project ''display_order'') (project ''displayOrder'') of
            None \<Rightarrow> 0
          | Some s \<Rightarrow>
              if s = [] then 0
              else (case N s of Finite n \<Rightarrow> n | NaN \<Rightarrow> 0 | PosInfinity \<Rightarrow> 0 | NegInfinity \<Rightarrow> 0))"
    by (simp add: to_project_def Let_def toNumber_def split: option.splits js_number.splits)
  have ex: "map p_id
          (projectsData N
             [[''id'' \<mapsto> ''a'', ''displayOrder'' \<mapsto> ''2''],
              [''id'' \<mapsto> ''b'', ''displayOrder'' \<mapsto> ''1''],
              [''id'' \<mapsto> ''c'', ''displayOrder'' \<mapsto> '''']] D CS)
        = [''c'', ''b'', ''a'']" if "N ''2'' = Finite 2" and "N ''1'' = Finite 1"
    using that
    by (simp add: projectsData_def sort_by_def to_project_def Let_def toNumber_def nullish_def
        project_key_def or_str_def trim_def is_space_def)
  from s m st fb ex show ?thesis by blast
qed

text \<open>The example with a conversion that knows the two numerals.\<close>

theorem projectsData_sorted_stable_witness:
  "map p_id
     (projectsData (\<lambda>s. if s = ''1'' then Finite 1 else if s = ''2'' then Finite 2 else NaN)
        [[''id'' \<mapsto> ''a'', ''displayOrder'' \<mapsto> ''2''],
         [''id'' \<mapsto> ''b'', ''displayOrder'' \<mapsto> ''1''],
         [''id'' \<mapsto> ''c'', ''displayOrder'' \<mapsto> '''']] [] [])
   = [''c'', ''b'', ''a'']"
  using projectsData_sorted_stable
    [of "\<lambda>s. if s = ''1'' then Finite 1 else if s = ''2'' then Finite 2 else NaN"]
  by simp

subsection \<open>The resume document\<close>

text \<open>
  C8. The header of the resume document is the empty mapping when the header table has
  no row and the first row, unchanged, otherwise; \<open>resumeData\<close> is total. Experience,
  education and skills are the images of their own tables sorted by the display order:
  the sorted table is ascending, a permutation of the table, and stable. The display
  order of a row is the number that \<open>Number\<close> gives for its \<open>display_order\<close> field, or for
  its \<open>displayOrder\<close> field when the first is missing, and 0 when the field is missing,
  empty or not converted to a finite number. When \<open>Number\<close> converts \<open>"2"\<close> to 2 and
  \<open>"1"\<close> to 1, rows with the orders 2, 1 and none come out as none, 1, 2 in each of the
  three sequences.
\<close>

theorem resumeData_header_and_order:
  "r_header (resumeData N [] E U S) = Map.empty
   \<and> r_header (resumeData N (first # rest) E U S) = first
   \<and> r_experience (resumeData N H E U S) = map to_experience (sort_by (display_order N) E)
   \<and> r_education (resumeData N H E U S) = map to_education (sort_by (display_order N) U)
   \<and> r_skills (resumeData N H E U S) = map to_skill (sort_by (display_order N) S)
   \<and> sorted (map (display_order N) (sort_by (display_order N) rows))
   \<and> mset (sort_by (display_order N) rows) = mset rows
   \<and> filter (\<lambda>a. display_order N a = v) (sort_by (display_order N) rows)
       = filter (\<lambda>a. display_order N a = v) rows
   \<and> display_order N a
       = (case nullish (a ''display_order'') (a ''displayOrder'') of
            None \<Rightarrow> 0
          | Some s \<Rightarrow>
              if s = [] then 0
              else (case N s of Finite n \<Rightarrow> n | NaN \<Rightarrow> 0 | PosInfinity \<Rightarrow> 0 | NegInfinity \<Rightarrow> 0))
   \<and> (N ''2'' = Finite 2 \<longrightarrow> N ''1'' = Finite 1 \<longrightarrow>
        map x_company
          (r_experience (resumeData N H
             [[''company'' \<mapsto> ''B'', ''display_order'' \<mapsto> ''2''],
              [''company'' \<mapsto> ''A'', ''displayOrder'' \<mapsto> ''1''],
              [''company'' \<mapsto> ''C'']] U S))
          = [Some ''C'', Some ''A'', Some ''B'']
        \<and> map e_school
          (r_education (resumeData N H E
             [[''school'' \<mapsto> ''B'', ''display_order'' \<mapsto> ''2''],
              [''school'' \<mapsto> ''A'', ''display_order'' \<mapsto> ''1'']] S))
          = [Some ''A'', Some ''B'']
        \<and> map k_category
          (r_skills (resumeData N H E U
             [[''category'' \<mapsto> ''B'', ''display_order'' \<mapsto> ''2''],
              [''category'' \<mapsto> ''A'', ''display_order'' \<mapsto> ''1'']]))
          = [Some ''A'', Some ''B''])"
proof -
  have shape: "r_header (resumeData N [] E U S) = Map.empty
   \<and> r_header (resumeData N (first # rest) E U S) = first
   \<and> r_experience (resumeData N H E U S) = map to_experience (sort_by (display_order N) E)
   \<and> r_education (resumeData N H E U S) = map to_education (sort_by (display_order N) U)
   \<and> r_skills (resumeData N H E U S) = map to_skill (sort_by (display_order N) S)"
    by (simp add: resumeData_def)
  have srt: "sorted (map (display_order N) (sort_by (display_order N) rows))
   \<and> mset (sort_by (display_order N) rows) = mset rows
   \<and> filter (\<lambda>a. display_order N a = v) (sort_by (display_order N) rows)
       = filter (\<lambda>a. display_order N a = v) rows"
    by (simp add: sort_by_def sort_key_stable)
  have key: "display_order N a
       = (case nullish (a ''display_order'') (a ''displayOrder'') of
            None \<Rightarrow> 0
          | Some s \<Rightarrow>
              if s = [] then 0
              else (case N s of Finite n \<Rightarrow> n | NaN \<Rightarrow> 0 | PosInfinity \<Rightarrow> 0 | NegInfinity \<Rightarrow> 0))"
    by (simp add: display_order_def toNumber_def split: option.splits js_number.splits)
  have ex: "map x_company
          (r_experience (resumeData N H
             [[''company'' \<mapsto> ''B'', ''display_order'' \<mapsto> ''2''],
              [''company'' \<mapsto> ''A'', ''displayOrder'' \<mapsto> ''1''],
              [''company'' \<mapsto> ''C'']] U S))
          = [Some ''C'', Some ''A'', Some ''B'']
        \<and> map e_school
          (r_education (resumeData N H E
             [[''school'' \<mapsto> ''B'', ''display_order'' \<mapsto> ''2''],
              [''school'' \<mapsto> ''A'', ''display_order'' \<mapsto> ''1'']] S))
          = [Some ''A'', Some ''B'']
        \<and> map k_category
          (r_skills (resumeData N H E U
             [[''category'' \<mapsto> ''B'', ''display_order'' \<mapsto> ''2''],
              [''category'' \<mapsto> ''A'', ''display_order'' \<mapsto> ''1'']]))
          = [Some ''A'', Some ''B'']"
    if "N ''2'' = Finite 2" and "N ''1'' = Finite 1"
    using that
    by (simp add: resumeData_def sort_by_def display_order_def toNumber_def nullish_def
        to_experience_def to_education_def to_skill_def)
  from shape srt key ex show ?thesis by blast
qed

text \<open>The example with a conversion that knows the two numerals, and an empty header
  table.\<close>

theorem resumeData_header_and_order_witness:
  "map x_company
     (r_experience
        (resumeData (\<lambda>s. if s = ''1'' then Finite 1 else if s = ''2'' then Finite 2 else NaN) []
           [[''company'' \<mapsto> ''B'', ''display_order'' \<mapsto> ''2''],
            [''company'' \<mapsto> ''A'', ''displayOrder'' \<mapsto> ''1''],
            [''company'' \<mapsto> ''C'']] [] []))
   = [Some ''C'', Some ''A'', Some ''B'']
   \<and> r_header
       (resumeData (\<lambda>s. if s = ''1'' then Finite 1 else if s = ''2'' then Finite 2 else NaN) []
          [[''company'' \<mapsto> ''B'', ''display_order'' \<mapsto> ''2''],
           [''company'' \<mapsto> ''A'', ''displayOrder'' \<mapsto> ''1''],
           [''company'' \<mapsto> ''C'']] [] [])
     = Map.empty"
proof -
  let ?N = "\<lambda>s. if s = ''1'' then Finite 1 else if s = ''2'' then Finite 2 else NaN"
  have n2: "?N ''2'' = Finite 2" by simp
  have n1: "?N ''1'' = Finite 1" by simp
  note t = resumeData_header_and_order [of ?N _ "[]" "[]" _ _ "[]"]
  from t n2 n1 have a: "map x_company
     (r_experience
        (resumeData ?N []
           [[''company'' \<mapsto> ''B'', ''display_order'' \<mapsto> ''2''],
            [''company'' \<mapsto> ''A'', ''displayOrder'' \<mapsto> ''1''],
            [''company'' \<mapsto> ''C'']] [] []))
   = [Some ''C'', Some ''A'', Some ''B'']"
    by blast
  from t have b: "r_header
       (resumeData ?N []
          [[''company'' \<mapsto> ''B'', ''display_order'' \<mapsto> ''2''],
           [''company'' \<mapsto> ''A'', ''displayOrder'' \<mapsto> ''1''],
           [''company'' \<mapsto> ''C'']] [] [])
     = Map.empty"
    by blast
  from a b show ?thesis by (rule conjI)
qed

subsection \<open>Malformed lines\<close>

text \<open>
  C5. A line whose scan ends inside quote mode makes \<open>parseCSVLine\<close> throw an error that
  carries the line number and the first 80 characters of the line, and the loop over the
  data lines skips exactly these lines and keeps every other one: a data line
  \<open>"x\<close> between the header \<open>id\<close> and the line \<open>a\<close> leaves the one record of \<open>a\<close>. The
  header line is tokenized outside the \<open>try\<close>: with the header \<open>"id\<close> the table reader
  throws, no record of the table is returned, and the build ends with exit code 1 and
  has written nothing.
\<close>

theorem malformed_header_aborts_build:
  "parseCSVLine line n =
     (if unterminated line then Inl (Unterminated_quote n (take 80 line)) else Inr (fields_of line))
   \<and> records_from headers n ls
       = map (\<lambda>l. mk_record headers (fields_of l)) (filter (\<lambda>l. \<not> unterminated l) ls)
   \<and> parseCSV (''id'' @ [LF] @ DQUOTE # ''x'' @ [LF] @ ''a'') = Inr [[''id'' \<mapsto> ''a'']]
   \<and> parseCSV (DQUOTE # ''id'' @ [LF] @ ''a'') = Inl (Unterminated_quote 1 (DQUOTE # ''id''))
   \<and> main rt [''projects.csv'' \<mapsto> DQUOTE # ''id'' @ [LF] @ ''a'']
       = (1, Some (Unterminated_quote 1 (DQUOTE # ''id'')),
          [''projects.csv'' \<mapsto> DQUOTE # ''id'' @ [LF] @ ''a''])"
proof -
  have l1: "lines_of (''id'' @ [LF] @ DQUOTE # ''x'' @ [LF] @ ''a'') = [''id'', DQUOTE # ''x'', ''a'']"
    by (simp add: lines_of_def trim_def is_space_def)
  have l2: "lines_of (DQUOTE # ''id'' @ [LF] @ ''a'') = [DQUOTE # ''id'', ''a'']"
    by (simp add: lines_of_def trim_def is_space_def)
  have data: "parseCSV (''id'' @ [LF] @ DQUOTE # ''x'' @ [LF] @ ''a'') = Inr [[''id'' \<mapsto> ''a'']]"
    unfolding parseCSV_def l1
    by (simp add: parseCSVLine_def trim_def is_space_def mk_record_def field_at_def assign_def)
  have header: "parseCSV (DQUOTE # ''id'' @ [LF] @ ''a'') = Inl (Unterminated_quote 1 (DQUOTE # ''id''))"
    unfolding parseCSV_def l2 by (simp add: parseCSVLine_def)
  have run: "main rt [''projects.csv'' \<mapsto> DQUOTE # ''id'' @ [LF] @ ''a'']
       = (1, Some (Unterminated_quote 1 (DQUOTE # ''id'')),
          [''projects.csv'' \<mapsto> DQUOTE # ''id'' @ [LF] @ ''a''])"
    using header by (simp add: main_def buildData_def bind_result_def readCSV_def)
  from parseCSVLine_eq [of line n] records_from_eq [of headers n ls] data header run
  show ?thesis by (intro conjI)
qed

subsection \<open>Spellings of the foreign key\<close>

text \<open>
  The key of a case study section row is the trimmed \<open>project_id\<close> when that field is
  present and not empty, and the trimmed \<open>projectId\<close> otherwise. The details of a project
  are taken from the rows whose \<open>project_id\<close> is the id, and the sections of a focus area
  from the rows whose \<open>focus_area_id\<close> is the id: a table without that column gives
  nothing.
\<close>

lemma foreign_key_columns:
  "cs_key cs =
     trim (if truthy (cs ''project_id'') then or_str (cs ''project_id'') []
           else or_str (cs ''projectId'') [])
   \<and> project_details N projectDetails k
       = project_details N (filter (\<lambda>d. d ''project_id'' = Some k) projectDetails) k
   \<and> focus_sections N focusAreaSections v
       = focus_sections N (filter (\<lambda>s. s ''focus_area_id'' = v) focusAreaSections) v
   \<and> (list_all (\<lambda>d. d ''project_id'' = None) projectDetails \<longrightarrow>
        project_details N projectDetails k = [])
   \<and> (list_all (\<lambda>s. s ''focus_area_id'' = None) focusAreaSections \<longrightarrow>
        focus_sections N focusAreaSections (Some k) = [])"
proof -
  have key: "cs_key cs =
     trim (if truthy (cs ''project_id'') then or_str (cs ''project_id'') []
           else or_str (cs ''projectId'') [])"
    by (simp add: cs_key_def or_js_def)
  have d1: "project_details N projectDetails k
       = project_details N (filter (\<lambda>d. d ''project_id'' = Some k) projectDetails) k"
    by (simp add: project_details_def)
  have f1: "focus_sections N focusAreaSections v
       = focus_sections N (filter (\<lambda>s. s ''focus_area_id'' = v) focusAreaSections) v"
    by (simp add: focus_sections_def)
  have d2: "project_details N projectDetails k = []"
    if "list_all (\<lambda>d. d ''project_id'' = None) projectDetails"
  proof -
    from that have "filter (\<lambda>d. d ''project_id'' = Some k) projectDetails = []"
      by (auto simp: filter_empty_conv list_all_iff)
    then show ?thesis by (simp add: project_details_def sort_by_def)
  qed
  have f2: "focus_sections N focusAreaSections (Some k) = []"
    if "list_all (\<lambda>s. s ''focus_area_id'' = None) focusAreaSections"
  proof -
    from that have "filter (\<lambda>s. s ''focus_area_id'' = Some k) focusAreaSections = []"
      by (auto simp: filter_empty_conv list_all_iff)
    then show ?thesis by (simp add: focus_sections_def sort_by_def)
  qed
  from key d1 f1 d2 f2 show ?thesis by blast
qed

text \<open>
  C2. The case study sections are joined to their project under either spelling of the
  column, \<open>project_id\<close> or \<open>projectId\<close>. The project details and the focus area sections
  are not: a detail row is joined under \<open>project_id\<close> and left out under \<open>projectId\<close>, and
  a focus area section row is joined under \<open>focus_area_id\<close> and left out under
  \<open>focusAreaId\<close>.
\<close>

theorem foreign_key_camelCase_not_joined:
  "map p_details
     (projectsData N [[''id'' \<mapsto> ''p1'']] [[''projectId'' \<mapsto> ''p1'', ''heading'' \<mapsto> ''H'']] [])
   = [[]]
   \<and> map p_details
       (projectsData N [[''id'' \<mapsto> ''p1'']] [[''project_id'' \<mapsto> ''p1'', ''heading'' \<mapsto> ''H'']] [])
     = [[\<lparr> d_heading = Some ''H'', d_text = None, d_image = [], d_caseStudyLink = [],
            d_password = [] \<rparr>]]
   \<and> map f_sections
       (focusAreasData N [[''id'' \<mapsto> ''f1'']] [[''focusAreaId'' \<mapsto> ''f1'', ''text'' \<mapsto> ''T'']])
     = [[]]
   \<and> map f_sections
       (focusAreasData N [[''id'' \<mapsto> ''f1'']] [[''focus_area_id'' \<mapsto> ''f1'', ''text'' \<mapsto> ''T'']])
     = [[\<lparr> s_image = None, s_text = Some ''T'', s_sectionTitle = None \<rparr>]]
   \<and> map p_caseStudy
       (projectsData N [[''id'' \<mapsto> ''p1'']] [] [[''projectId'' \<mapsto> ''p1'', ''text'' \<mapsto> ''T'']])
     = [[\<lparr> s_image = None, s_text = Some ''T'', s_sectionTitle = None \<rparr>]]
   \<and> map p_caseStudy
       (projectsData N [[''id'' \<mapsto> ''p1'']] [] [[''project_id'' \<mapsto> ''p1'', ''text'' \<mapsto> ''T'']])
     = [[\<lparr> s_image = None, s_text = Some ''T'', s_sectionTitle = None \<rparr>]]"
proof -
  have key: "project_key [''id'' \<mapsto> ''p1''] = ''p1''"
    by (simp add: project_key_def or_str_def trim_def is_space_def)
  have d1: "map p_details
     (projectsData N [[''id'' \<mapsto> ''p1'']] [[''projectId'' \<mapsto> ''p1'', ''heading'' \<mapsto> ''H'']] [])
   = [[]]"
    by (simp add: projectsData_def sort_by_def to_project_def Let_def key project_details_def)
  have d2: "map p_details
       (projectsData N [[''id'' \<mapsto> ''p1'']] [[''project_id'' \<mapsto> ''p1'', ''heading'' \<mapsto> ''H'']] [])
     = [[\<lparr> d_heading = Some ''H'', d_text = None, d_image = [], d_caseStudyLink = [],
            d_password = [] \<rparr>]]"
    by (simp add: projectsData_def sort_by_def to_project_def Let_def key project_details_def
        to_detail_def or_js_def or_str_def truthy_def)
  have f1: "map f_sections
       (focusAreasData N [[''id'' \<mapsto> ''f1'']] [[''focusAreaId'' \<mapsto> ''f1'', ''text'' \<mapsto> ''T'']])
     = [[]]"
    by (simp add: focusAreasData_def sort_by_def to_focus_area_def focus_sections_def)
  have f2: "map f_sections
       (focusAreasData N [[''id'' \<mapsto> ''f1'']] [[''focus_area_id'' \<mapsto> ''f1'', ''text'' \<mapsto> ''T'']])
     = [[\<lparr> s_image = None, s_text = Some ''T'', s_sectionTitle = None \<rparr>]]"
    by (simp add: focusAreasData_def sort_by_def to_focus_area_def focus_sections_def
        to_section_def or_js_def or_null_def truthy_def)
  have k1: "cs_key [''projectId'' \<mapsto> ''p1'', ''text'' \<mapsto> ''T''] = ''p1''"
    by (simp add: cs_key_def or_js_def or_str_def truthy_def trim_def is_space_def)
  have k2: "cs_key [''project_id'' \<mapsto> ''p1'', ''text'' \<mapsto> ''T''] = ''p1''"
    by (simp add: cs_key_def or_js_def or_str_def truthy_def trim_def is_space_def)
  have c1: "map p_caseStudy
       (projectsData N [[''id'' \<mapsto> ''p1'']] [] [[''projectId'' \<mapsto> ''p1'', ''text'' \<mapsto> ''T'']])
     = [[\<lparr> s_image = None, s_text = Some ''T'', s_sectionTitle = None \<rparr>]]"
    by (simp add: projectsData_def sort_by_def to_project_def Let_def key caseStudyById_def
        group_step_def k1 group_get_def sorted_sections_def cs_entry_def or_js_def or_null_def
        truthy_def page_section.truncate_def)
  have c2: "map p_caseStudy
       (projectsData N [[''id'' \<mapsto> ''p1'']] [] [[''project_id'' \<mapsto> ''p1'', ''text'' \<mapsto> ''T'']])
     = [[\<lparr> s_image = None, s_text = Some ''T'', s_sectionTitle = None \<rparr>]]"
    by (simp add: projectsData_def sort_by_def to_project_def Let_def key caseStudyById_def
        group_step_def k2 group_get_def sorted_sections_def cs_entry_def or_js_def or_null_def
        truthy_def page_section.truncate_def)
  from d1 d2 f1 f2 c1 c2 show ?thesis by (intro conjI)
qed

subsection \<open>Writing the documents\<close>

text \<open>
  C4, as stated, fails: when \<open>focus-areas.json\<close> cannot be written, the run ends with
  exit code 1 and the error of that path, and leaves the new project list beside the old
  focus areas, the old resume and the old case studies.
\<close>

theorem write_failure_mixed_directory_counterexample:
  "fst (main
     \<lparr> Number_of = (\<lambda>s. NaN),
       stringify_projects = (\<lambda>d. ''new projects''),
       stringify_focus_areas = (\<lambda>d. ''new focus areas''),
       stringify_resume = (\<lambda>d. ''new resume''),
       stringify_case_studies = (\<lambda>d. ''new case studies''),
       unwritable = (\<lambda>path. path = ''focus-areas.json''),
       leftover = (\<lambda>path old. old) \<rparr>
     [''projects.json'' \<mapsto> ''old projects'', ''focus-areas.json'' \<mapsto> ''old focus areas'',
      ''resume.json'' \<mapsto> ''old resume'', ''case-studies.json'' \<mapsto> ''old case studies''])
   = 1
   \<and> snd (main
     \<lparr> Number_of = (\<lambda>s. NaN),
       stringify_projects = (\<lambda>d. ''new projects''),
       stringify_focus_areas = (\<lambda>d. ''new focus areas''),
       stringify_resume = (\<lambda>d. ''new resume''),
       stringify_case_studies = (\<lambda>d. ''new case studies''),
       unwritable = (\<lambda>path. path = ''focus-areas.json''),
       leftover = (\<lambda>path old. old) \<rparr>
     [''projects.json'' \<mapsto> ''old projects'', ''focus-areas.json'' \<mapsto> ''old focus areas'',
      ''resume.json'' \<mapsto> ''old resume'', ''case-studies.json'' \<mapsto> ''old case studies''])
   = (Some (Write_failed ''focus-areas.json''),
      [''projects.json'' \<mapsto> ''new projects'', ''focus-areas.json'' \<mapsto> ''old focus areas'',
       ''resume.json'' \<mapsto> ''old resume'', ''case-studies.json'' \<mapsto> ''old case studies''])"
  by (simp add: main_def buildData_def bind_result_def readCSV_def writeOutputs_def
      writeFileSync_def fun_upd_twist)

text \<open>The four writes, case by case, and the build when every table is read.\<close>

lemma writeOutputs_cases:
  "writeOutputs rt pd fd rd co fs =
     (if unwritable rt ''projects.json''
      then (Inl (Write_failed ''projects.json''),
            fs(''projects.json'' := leftover rt ''projects.json'' (fs ''projects.json'')))
      else if unwritable rt ''focus-areas.json''
      then (Inl (Write_failed ''focus-areas.json''),
            fs(''projects.json'' \<mapsto> stringify_projects rt pd,
               ''focus-areas.json'' := leftover rt ''focus-areas.json'' (fs ''focus-areas.json'')))
      else if unwritable rt ''resume.json''
      then (Inl (Write_failed ''resume.json''),
            fs(''projects.json'' \<mapsto> stringify_projects rt pd,
               ''focus-areas.json'' \<mapsto> stringify_focus_areas rt fd,
               ''resume.json'' := leftover rt ''resume.json'' (fs ''resume.json'')))
      else if unwritable rt ''case-studies.json''
      then (Inl (Write_failed ''case-studies.json''),
            fs(''projects.json'' \<mapsto> stringify_projects rt pd,
               ''focus-areas.json'' \<mapsto> stringify_focus_areas rt fd,
               ''resume.json'' \<mapsto> stringify_resume rt rd,
               ''case-studies.json'' := leftover rt ''case-studies.json'' (fs ''case-studies.json'')))
      else (Inr (),
            fs(''projects.json'' \<mapsto> stringify_projects rt pd,
               ''focus-areas.json'' \<mapsto> stringify_focus_areas rt fd,
               ''resume.json'' \<mapsto> stringify_resume rt rd,
               ''case-studies.json'' \<mapsto> stringify_case_studies rt co)))"
  by (simp add: writeOutputs_def writeFileSync_def)

lemma buildData_writes:
  assumes "readCSV fs ''projects.csv'' = Inr projects"
    and "readCSV fs ''project_details.csv'' = Inr projectDetails"
    and "readCSV fs ''case_study_sections.csv'' = Inr caseStudySections"
    and "readCSV fs ''focus_areas.csv'' = Inr focusAreas"
    and "readCSV fs ''focus_area_sections.csv'' = Inr focusAreaSections"
    and "readCSV fs ''resume_header.csv'' = Inr resumeHeader"
    and "readCSV fs ''resume_experience.csv'' = Inr resumeExperience"
    and "readCSV fs ''resume_education.csv'' = Inr resumeEducation"
    and "readCSV fs ''resume_skills.csv'' = Inr resumeSkills"
  shows "buildData rt fs =
           writeOutputs rt
             (projectsData (Number_of rt) projects projectDetails caseStudySections)
             (focusAreasData (Number_of rt) focusAreas focusAreaSections)
             (resumeData (Number_of rt) resumeHeader resumeExperience resumeEducation resumeSkills)
             (caseStudyOnly (Number_of rt) projects projectDetails caseStudySections)
             fs"
  by (simp add: buildData_def bind_result_def assms)

text \<open>
  C4, amended. When the nine tables are read, the build is the sequence of the four
  writes, in the order project list, focus areas, resume, standalone case studies. The
  first write that fails ends the run with exit code 1 and the error of its path: every
  earlier document holds its new content, every later document and every other file is
  untouched, and the path of the failed write holds what that write left. When no write
  fails the run ends with exit code 0 and all four documents hold their new content. In
  every case the run exits with code 1 and reports the error exactly when \<open>buildData\<close>
  throws.
\<close>

theorem writeOutputs_sequential:
  assumes "readCSV fs ''projects.csv'' = Inr projects"
    and "readCSV fs ''project_details.csv'' = Inr projectDetails"
    and "readCSV fs ''case_study_sections.csv'' = Inr caseStudySections"
    and "readCSV fs ''focus_areas.csv'' = Inr focusAreas"
    and "readCSV fs ''focus_area_sections.csv'' = Inr focusAreaSections"
    and "readCSV fs ''resume_header.csv'' = Inr resumeHeader"
    and "readCSV fs ''resume_experience.csv'' = Inr resumeExperience"
    and "readCSV fs ''resume_education.csv'' = Inr resumeEducation"
    and "readCSV fs ''resume_skills.csv'' = Inr resumeSkills"
  shows "main rt fs =
     (let p = stringify_projects rt
                (projectsData (Number_of rt) projects projectDetails caseStudySections);
          f = stringify_focus_areas rt
                (focusAreasData (Number_of rt) focusAreas focusAreaSections);
          r = stringify_resume rt
                (resumeData (Number_of rt) resumeHeader resumeExperience resumeEducation
                   resumeSkills);
          c = stringify_case_studies rt
                (caseStudyOnly (Number_of rt) projects projectDetails caseStudySections)
      in if unwritable rt ''projects.json''
         then (1, Some (Write_failed ''projects.json''),
               fs(''projects.json'' := leftover rt ''projects.json'' (fs ''projects.json'')))
         else if unwritable rt ''focus-areas.json''
         then (1, Some (Write_failed ''focus-areas.json''),
               fs(''projects.json'' \<mapsto> p,
                  ''focus-areas.json'' := leftover rt ''focus-areas.json'' (fs ''focus-areas.json'')))
         else if unwritable rt ''resume.json''
         then (1, Some (Write_failed ''resume.json''),
               fs(''projects.json'' \<mapsto> p, ''focus-areas.json'' \<mapsto> f,
                  ''resume.json'' := leftover rt ''resume.json'' (fs ''resume.json'')))
         else if unwritable rt ''case-studies.json''
         then (1, Some (Write_failed ''case-studies.json''),
               fs(''projects.json'' \<mapsto> p, ''focus-areas.json'' \<mapsto> f, ''resume.json'' \<mapsto> r,
                  ''case-studies.json'' := leftover rt ''case-studies.json'' (fs ''case-studies.json'')))
         else (0, None,
               fs(''projects.json'' \<mapsto> p, ''focus-areas.json'' \<mapsto> f, ''resume.json'' \<mapsto> r,
                  ''case-studies.json'' \<mapsto> c)))
   \<and> buildData rt fs =
       writeOutputs rt
         (projectsData (Number_of rt) projects projectDetails caseStudySections)
         (focusAreasData (Number_of rt) focusAreas focusAreaSections)
         (resumeData (Number_of rt) resumeHeader resumeExperience resumeEducation resumeSkills)
         (caseStudyOnly (Number_of rt) projects projectDetails caseStudySections)
         fs
   \<and> writeOutputs rt pd fd rd co fs =
     (if unwritable rt ''projects.json''
      then (Inl (Write_failed ''projects.json''),
            fs(''projects.json'' := leftover rt ''projects.json'' (fs ''projects.json'')))
      else if unwritable rt ''focus-areas.json''
      then (Inl (Write_failed ''focus-areas.json''),
            fs(''projects.json'' \<mapsto> stringify_projects rt pd,
               ''focus-areas.json'' := leftover rt ''focus-areas.json'' (fs ''focus-areas.json'')))
      else if unwritable rt ''resume.json''
      then (Inl (Write_failed ''resume.json''),
            fs(''projects.json'' \<mapsto> stringify_projects rt pd,
               ''focus-areas.json'' \<mapsto> stringify_focus_areas rt fd,
               ''resume.json'' := leftover rt ''resume.json'' (fs ''resume.json'')))
      else if unwritable rt ''case-studies.json''
      then (Inl (Write_failed ''case-studies.json''),
            fs(''projects.json'' \<mapsto> stringify_projects rt pd,
               ''focus-areas.json'' \<mapsto> stringify_focus_areas rt fd,
               ''resume.json'' \<mapsto> stringify_resume rt rd,
               ''case-studies.json'' := leftover rt ''case-studies.json'' (fs ''case-studies.json'')))
      else (Inr (),
            fs(''projects.json'' \<mapsto> stringify_projects rt pd,
               ''focus-areas.json'' \<mapsto> stringify_focus_areas rt fd,
               ''resume.json'' \<mapsto> stringify_resume rt rd,
               ''case-studies.json'' \<mapsto> stringify_case_studies rt co)))
   \<and> (case fst (buildData rt fs) of
         Inl err \<Rightarrow> main rt fs = (1, Some err, snd (buildData rt fs))
       | Inr u \<Rightarrow> main rt fs = (0, None, snd (buildData rt fs)))"
proof -
  note b = buildData_writes [OF assms, of rt]
  have m: "main rt fs =
     (let p = stringify_projects rt
                (projectsData (Number_of rt) projects projectDetails caseStudySections);
          f = stringify_focus_areas rt
                (focusAreasData (Number_of rt) focusAreas focusAreaSections);
          r = stringify_resume rt
                (resumeData (Number_of rt) resumeHeader resumeExperience resumeEducation
                   resumeSkills);
          c = stringify_case_studies rt
                (caseStudyOnly (Number_of rt) projects projectDetails caseStudySections)
      in if unwritable rt ''projects.json''
         then (1, Some (Write_failed ''projects.json''),
               fs(''projects.json'' := leftover rt ''projects.json'' (fs ''projects.json'')))
         else if unwritable rt ''focus-areas.json''
         then (1, Some (Write_failed ''focus-areas.json''),
               fs(''projects.json'' \<mapsto> p,
                  ''focus-areas.json'' := leftover rt ''focus-areas.json'' (fs ''focus-areas.json'')))
         else if unwritable rt ''resume.json''
         then (1, Some (Write_failed ''resume.json''),
               fs(''projects.json'' \<mapsto> p, ''focus-areas.json'' \<mapsto> f,
                  ''resume.json'' := leftover rt ''resume.json'' (fs ''resume.json'')))
         else if unwritable rt ''case-studies.json''
         then (1, Some (Write_failed ''case-studies.json''),
               fs(''projects.json'' \<mapsto> p, ''focus-areas.json'' \<mapsto> f, ''resume.json'' \<mapsto> r,
                  ''case-studies.json'' := leftover rt ''case-studies.json'' (fs ''case-studies.json'')))
         else (0, None,
               fs(''projects.json'' \<mapsto> p, ''focus-areas.json'' \<mapsto> f, ''resume.json'' \<mapsto> r,
                  ''case-studies.json'' \<mapsto> c)))"
    unfolding main_def b writeOutputs_cases by (simp add: Let_def)
  have e: "case fst (buildData rt fs) of
         Inl err \<Rightarrow> main rt fs = (1, Some err, snd (buildData rt fs))
       | Inr u \<Rightarrow> main rt fs = (0, None, snd (buildData rt fs))"
    by (cases "buildData rt fs") (simp add: main_def split: sum.splits)
  from m b writeOutputs_cases [of rt pd fd rd co fs] e show ?thesis
    by (intro conjI)
qed

text \<open>A run without tables in which \<open>resume.json\<close> cannot be written.\<close>

theorem writeOutputs_sequential_witness:
  "main
     \<lparr> Number_of = (\<lambda>s. NaN),
       stringify_projects = (\<lambda>d. ''new projects''),
       stringify_focus_areas = (\<lambda>d. ''new focus areas''),
       stringify_resume = (\<lambda>d. ''new resume''),
       stringify_case_studies = (\<lambda>d. ''new case studies''),
       unwritable = (\<lambda>path. path = ''resume.json''),
       leftover = (\<lambda>path old. old) \<rparr>
     [''resume.json'' \<mapsto> ''old resume'']
   = (1, Some (Write_failed ''resume.json''),
      [''resume.json'' \<mapsto> ''old resume'', ''projects.json'' \<mapsto> ''new projects'',
       ''focus-areas.json'' \<mapsto> ''new focus areas''])"
proof -
  let ?fs = "[''resume.json'' \<mapsto> ''old resume''] :: files"
  have r: "readCSV ?fs ''projects.csv'' = Inr []"
    "readCSV ?fs ''project_details.csv'' = Inr []"
    "readCSV ?fs ''case_study_sections.csv'' = Inr []"
    "readCSV ?fs ''focus_areas.csv'' = Inr []"
    "readCSV ?fs ''focus_area_sections.csv'' = Inr []"
    "readCSV ?fs ''resume_header.csv'' = Inr []"
    "readCSV ?fs ''resume_experience.csv'' = Inr []"
    "readCSV ?fs ''resume_education.csv'' = Inr []"
    "readCSV ?fs ''resume_skills.csv'' = Inr []"
    by (simp_all add: readCSV_def)
  note t = writeOutputs_sequential [OF r, THEN conjunct1]
  show ?thesis
    by (simp add: t Let_def fun_upd_twist)
qed

end
